theory Spec2Isabelle
  imports Main "HOL-Library.Sublist"
begin

section \<open>The deprecation assertion harness of react-native-firebase\<close>

text \<open>
  The source file defines two test helpers, \<open>checkV9Deprecation\<close> and
  \<open>createCheckV9Deprecation\<close>. Both work on one piece of process-wide state, the
  function bound to \<open>console.warn\<close>, through the mocking facility of the test framework
  (\<open>jest.spyOn\<close>, \<open>mockImplementation\<close>, \<open>mockClear\<close>, \<open>mockReset\<close>,
  \<open>mockRestore\<close>) and its assertions (\<open>expect(...)\<close>). The embedding makes that state
  explicit: a store of mock functions, the binding of \<open>console.warn\<close>, and what the
  original \<open>console.warn\<close> has printed. The mocking facility is not part of the
  repository; its operations follow the documented behaviour of the framework. An
  assertion that fails throws; a throw is the first component of the result, and the state
  at the moment of the throw is the second.
\<close>

subsection \<open>Assertion failures\<close>

datatype assertionError =
    NotToHaveBeenCalled nat          \<comment> \<open>\<open>expect(spy).not.toHaveBeenCalled()\<close>: received number of calls\<close>
  | ToHaveBeenCalledTimes nat nat    \<comment> \<open>\<open>expect(spy).toHaveBeenCalledTimes(e)\<close>: expected, received\<close>
  | ToMatch string string            \<comment> \<open>\<open>expect(received).toMatch(expected)\<close>: received, expected\<close>

subsection \<open>Mock functions and the warning channel\<close>

text \<open>
  The implementation of a mock function: a spy made by \<open>jest.spyOn\<close> first calls through
  to the original method; \<open>mockImplementation(f)\<close> replaces that by \<open>f\<close>; \<open>mockReset\<close>
  removes every implementation, after which the mock returns \<open>undefined\<close>. An
  implementation \<open>f\<close> receives the first argument of the call and either returns or throws
  an assertion failure.

  There are two kinds of mock function. A spy made by \<open>jest.spyOn\<close> remembers the method
  it replaced, and \<open>mockRestore\<close> puts that method back. A mock made by \<open>jest.fn()\<close>, which
  a test file may have bound to \<open>console.warn\<close> before it calls a harness, has nothing to
  put back. The field \<open>spied\<close> tells them apart.
\<close>

datatype mockImpl =
    CallOriginal
  | ReturnUndefined
  | Fn "string \<Rightarrow> assertionError option"

record mockFn =
  impl :: mockImpl
  calls :: "string list"     \<comment> \<open>\<open>mock.calls\<close>: the payload of every recorded invocation\<close>
  spied :: bool              \<comment> \<open>made by \<open>jest.spyOn\<close>, so that \<open>mockRestore\<close> unbinds it\<close>

text \<open>
  \<open>consoleWarn\<close> is what \<open>console.warn\<close> is bound to: \<open>None\<close> for the original function,
  \<open>Some i\<close> for the mock function at address \<open>i\<close> of the store \<open>mocks\<close>. A variable such
  as \<open>consoleWarnSpy\<close> holds an address, so that a spy that is no longer installed can
  still be inspected and cleared, as the source does.
\<close>

record world =
  consoleWarn :: "nat option"
  mocks :: "mockFn list"
  printed :: "string list"

text \<open>A state is well formed when the mock bound to \<open>console.warn\<close>, if any, is in the store.\<close>

definition wellFormed :: "world \<Rightarrow> bool" where
  "wellFormed w = (case consoleWarn w of None \<Rightarrow> True | Some i \<Rightarrow> i < length (mocks w))"

text \<open>\<open>console.warn\<close> is bound to a mock that \<open>jest.spyOn\<close> did not make.\<close>

definition jestFnBound :: "world \<Rightarrow> bool" where
  "jestFnBound w = (case consoleWarn w of None \<Rightarrow> False | Some i \<Rightarrow> \<not> spied (mocks w ! i))"

definition updMock :: "nat \<Rightarrow> (mockFn \<Rightarrow> mockFn) \<Rightarrow> world \<Rightarrow> world" where
  "updMock i f w = w\<lparr>mocks := (mocks w)[i := f (mocks w ! i)]\<rparr>"

text \<open>
  \<open>jest.spyOn(console, 'warn')\<close>: when \<open>console.warn\<close> is already a mock function, that
  mock is returned as it is; otherwise a new mock that calls through to the original is
  created and installed.
\<close>

definition spyOn :: "world \<Rightarrow> nat \<times> world" where
  "spyOn w =
     (case consoleWarn w of
        Some i \<Rightarrow> (i, w)
      | None \<Rightarrow>
          (length (mocks w),
           w\<lparr>consoleWarn := Some (length (mocks w)),
             mocks := mocks w @ [\<lparr>impl = CallOriginal, calls = [], spied = True\<rparr>]\<rparr>))"

definition mockImplementation :: "nat \<Rightarrow> (string \<Rightarrow> assertionError option) \<Rightarrow> world \<Rightarrow> world" where
  "mockImplementation i f w = updMock i (\<lambda>m. m\<lparr>impl := Fn f\<rparr>) w"

definition mockClear :: "nat \<Rightarrow> world \<Rightarrow> world" where
  "mockClear i w = updMock i (\<lambda>m. m\<lparr>calls := []\<rparr>) w"

definition mockReset :: "nat \<Rightarrow> world \<Rightarrow> world" where
  "mockReset i w = updMock i (\<lambda>m. m\<lparr>impl := ReturnUndefined\<rparr>) (mockClear i w)"

text \<open>
  \<open>mockRestore\<close> does what \<open>mockReset\<close> does and, for a spy made by \<open>jest.spyOn\<close>, puts
  the original method back. A mock made by \<open>jest.fn()\<close> is reset and stays where it is
  bound.
\<close>

definition mockRestore :: "nat \<Rightarrow> world \<Rightarrow> world" where
  "mockRestore i w =
     (if spied (mocks w ! i) then (mockReset i w)\<lparr>consoleWarn := None\<rparr> else mockReset i w)"

text \<open>
  A call \<open>console.warn(msg)\<close>. The original prints. A mock records the call first and
  then runs its implementation; what the implementation throws propagates to the caller,
  with the call recorded.
\<close>

definition console_warn :: "string \<Rightarrow> world \<Rightarrow> assertionError option \<times> world" where
  "console_warn msg w =
     (case consoleWarn w of
        None \<Rightarrow> (None, w\<lparr>printed := printed w @ [msg]\<rparr>)
      | Some i \<Rightarrow>
          (let w1 = updMock i (\<lambda>m. m\<lparr>calls := calls m @ [msg]\<rparr>) w in
           case impl (mocks w1 ! i) of
             CallOriginal \<Rightarrow> (None, w1\<lparr>printed := printed w1 @ [msg]\<rparr>)
           | ReturnUndefined \<Rightarrow> (None, w1)
           | Fn f \<Rightarrow> (f msg, w1)))"

text \<open>
  A zero-argument function under test (\<open>modularFunction\<close>, \<open>nonModularFunction\<close>) is
  represented by what it does on the warning channel: the payloads it passes to
  \<open>console.warn\<close>, in order. It does not catch what \<open>console.warn\<close> throws, so the first
  throw ends the call.
\<close>

type_synonym jsFunction = "string list"

fun callFn :: "jsFunction \<Rightarrow> world \<Rightarrow> assertionError option \<times> world" where
  "callFn [] w = (None, w)"
| "callFn (msg # rest) w =
     (case console_warn msg w of
        (None, w') \<Rightarrow> callFn rest w'
      | (Some e, w') \<Rightarrow> (Some e, w'))"

subsection \<open>The assertions\<close>

definition expect_not_toHaveBeenCalled :: "nat \<Rightarrow> world \<Rightarrow> assertionError option" where
  "expect_not_toHaveBeenCalled i w =
     (if calls (mocks w ! i) = [] then None
      else Some (NotToHaveBeenCalled (length (calls (mocks w ! i)))))"

definition expect_toHaveBeenCalledTimes :: "nat \<Rightarrow> nat \<Rightarrow> world \<Rightarrow> assertionError option" where
  "expect_toHaveBeenCalledTimes i n w =
     (if length (calls (mocks w ! i)) = n then None
      else Some (ToHaveBeenCalledTimes n (length (calls (mocks w ! i)))))"

text \<open>
  \<open>expect(received).toMatch(expected)\<close> with a string \<open>expected\<close> passes when
  \<open>received\<close> includes \<open>expected\<close> as a contiguous substring.
\<close>

fun startsWith :: "string \<Rightarrow> string \<Rightarrow> bool" where
  "startsWith s [] = True"
| "startsWith [] (c # cs) = False"
| "startsWith (d # ds) (c # cs) = (d = c \<and> startsWith ds cs)"

fun stringIncludes :: "string \<Rightarrow> string \<Rightarrow> bool" where
  "stringIncludes [] pat = startsWith [] pat"
| "stringIncludes (d # ds) pat = (startsWith (d # ds) pat \<or> stringIncludes ds pat)"

definition expect_toMatch :: "string \<Rightarrow> string \<Rightarrow> assertionError option" where
  "expect_toMatch received expected =
     (if stringIncludes received expected then None else Some (ToMatch received expected))"

subsection \<open>checkV9Deprecation\<close>

text \<open>
  Lines 6 to 9 of the source, up to and including the assertion on the first spy. The
  result carries the address held by \<open>consoleWarnSpy\<close>.
\<close>

definition checkV9_modular :: "jsFunction \<Rightarrow> world \<Rightarrow> nat \<times> assertionError option \<times> world" where
  "checkV9_modular modularFunction w0 =
     (let (consoleWarnSpy, w1) = spyOn w0;
          w2 = mockImplementation consoleWarnSpy (\<lambda>_. None) w1;
          w3 = mockRestore consoleWarnSpy w2
      in case callFn modularFunction w3 of
           (Some e, w4) \<Rightarrow> (consoleWarnSpy, Some e, w4)
         | (None, w4) \<Rightarrow> (consoleWarnSpy, expect_not_toHaveBeenCalled consoleWarnSpy w4, w4))"

text \<open>Lines 10 to 15 of the source.\<close>

definition checkV9_legacy :: "nat \<Rightarrow> jsFunction \<Rightarrow> world \<Rightarrow> assertionError option \<times> world" where
  "checkV9_legacy consoleWarnSpy nonModularFunction w4 =
     (let w5 = mockClear consoleWarnSpy w4;
          (consoleWarnSpy2, w6) = spyOn w5;
          w7 = mockImplementation consoleWarnSpy2 (\<lambda>_. None) w6
      in case callFn nonModularFunction w7 of
           (Some e, w8) \<Rightarrow> (Some e, w8)
         | (None, w8) \<Rightarrow>
             (case expect_toHaveBeenCalledTimes consoleWarnSpy2 1 w8 of
                Some e \<Rightarrow> (Some e, w8)
              | None \<Rightarrow> (None, mockClear consoleWarnSpy2 w8)))"

definition checkV9Deprecation :: "jsFunction \<Rightarrow> jsFunction \<Rightarrow> world \<Rightarrow> assertionError option \<times> world" where
  "checkV9Deprecation modularFunction nonModularFunction w0 =
     (case checkV9_modular modularFunction w0 of
        (consoleWarnSpy, Some e, w4) \<Rightarrow> (Some e, w4)
      | (consoleWarnSpy, None, w4) \<Rightarrow> checkV9_legacy consoleWarnSpy nonModularFunction w4)"

text \<open>
  Lines 10 and 11 on their own: what stands between the modular call and the legacy call.
  The result is the address held by \<open>consoleWarnSpy2\<close> and the state in which the legacy
  call starts.
\<close>

definition checkV9_reset :: "nat \<Rightarrow> world \<Rightarrow> nat \<times> world" where
  "checkV9_reset consoleWarnSpy w4 =
     (let w5 = mockClear consoleWarnSpy w4;
          (consoleWarnSpy2, w6) = spyOn w5;
          w7 = mockImplementation consoleWarnSpy2 (\<lambda>_. None) w6
      in (consoleWarnSpy2, w7))"

subsection \<open>createCheckV9Deprecation\<close>

text \<open>
  Modelled from the spec: \<open>createMessage\<close> is imported from \<open>./index\<close>, which is not among
  the sources. The spec calls it the message formatter, a pure function from (module name,
  method key, instance name, optional unique message) to a string, and gives no template,
  so the harness takes it as the parameter \<open>createMessage\<close>. A JavaScript value that may be
  \<open>undefined\<close> (\<open>moduleNames[0]\<close> of an empty array, an omitted \<open>uniqueMessage\<close>) is an
  option.
\<close>

type_synonym messageFormatter = "string option \<Rightarrow> string \<Rightarrow> string \<Rightarrow> string option \<Rightarrow> string"

text \<open>Reading a JavaScript array: an index out of range gives \<open>undefined\<close>.\<close>

definition arrayGet :: "'a list \<Rightarrow> nat \<Rightarrow> 'a option" where
  "arrayGet xs i = (if i < length xs then Some (xs ! i) else None)"

text \<open>\<open>moduleNames[1] || 'default'\<close>: \<open>undefined\<close> and the empty string are falsy.\<close>

definition instanceNameOf :: "string list \<Rightarrow> string" where
  "instanceNameOf moduleNames =
     (case arrayGet moduleNames 1 of
        None \<Rightarrow> ''default''
      | Some s \<Rightarrow> if s = [] then ''default'' else s)"

text \<open>The implementation given to the second spy, lines 41 to 44.\<close>

definition warnMatcher ::
  "messageFormatter \<Rightarrow> string list \<Rightarrow> string \<Rightarrow> string option \<Rightarrow> string \<Rightarrow> assertionError option" where
  "warnMatcher createMessage moduleNames methodNameKey uniqueMessage warnMessage =
     (let moduleName = arrayGet moduleNames 0;
          instanceName = instanceNameOf moduleNames;
          message = createMessage moduleName methodNameKey instanceName uniqueMessage
      in expect_toMatch warnMessage message)"

text \<open>Lines 34 to 38 of the source, up to and including the assertion on the first spy.\<close>

definition createCheck_modular :: "jsFunction \<Rightarrow> world \<Rightarrow> nat \<times> assertionError option \<times> world" where
  "createCheck_modular modularFunction w0 =
     (let (consoleWarnSpy, w1) = spyOn w0;
          w2 = mockImplementation consoleWarnSpy (\<lambda>_. None) w1;
          w3 = mockReset consoleWarnSpy w2
      in case callFn modularFunction w3 of
           (Some e, w4) \<Rightarrow> (consoleWarnSpy, Some e, w4)
         | (None, w4) \<Rightarrow> (consoleWarnSpy, expect_not_toHaveBeenCalled consoleWarnSpy w4, w4))"

text \<open>Lines 39 to 48 of the source.\<close>

definition createCheck_legacy ::
  "messageFormatter \<Rightarrow> string list \<Rightarrow> nat \<Rightarrow> jsFunction \<Rightarrow> string \<Rightarrow> string option \<Rightarrow> world
     \<Rightarrow> assertionError option \<times> world" where
  "createCheck_legacy createMessage moduleNames consoleWarnSpy nonModularFunction
       methodNameKey uniqueMessage w4 =
     (let w5 = mockReset consoleWarnSpy w4;
          w6 = mockRestore consoleWarnSpy w5;
          (consoleWarnSpy2, w7) = spyOn w6;
          w8 = mockImplementation consoleWarnSpy2
                 (warnMatcher createMessage moduleNames methodNameKey uniqueMessage) w7
      in case callFn nonModularFunction w8 of
           (Some e, w9) \<Rightarrow> (Some e, w9)
         | (None, w9) \<Rightarrow>
             (case expect_toHaveBeenCalledTimes consoleWarnSpy2 1 w9 of
                Some e \<Rightarrow> (Some e, w9)
              | None \<Rightarrow> (None, mockReset consoleWarnSpy2 w9)))"

text \<open>
  Lines 39 to 44 on their own: what stands between the modular call and the legacy call.
  The result is the address held by \<open>consoleWarnSpy2\<close> and the state in which the legacy
  call starts.
\<close>

definition createCheck_reset ::
  "messageFormatter \<Rightarrow> string list \<Rightarrow> nat \<Rightarrow> string \<Rightarrow> string option \<Rightarrow> world \<Rightarrow> nat \<times> world" where
  "createCheck_reset createMessage moduleNames consoleWarnSpy methodNameKey uniqueMessage w4 =
     (let w5 = mockReset consoleWarnSpy w4;
          w6 = mockRestore consoleWarnSpy w5;
          (consoleWarnSpy2, w7) = spyOn w6;
          w8 = mockImplementation consoleWarnSpy2
                 (warnMatcher createMessage moduleNames methodNameKey uniqueMessage) w7
      in (consoleWarnSpy2, w8))"

text \<open>
  The factory: \<open>createCheckV9Deprecation createMessage moduleNames\<close> is the checker it
  returns, a function of \<open>modularFunction\<close>, \<open>nonModularFunction\<close>, \<open>methodNameKey\<close> and
  the optional \<open>uniqueMessage\<close>.
\<close>

definition createCheckV9Deprecation ::
  "messageFormatter \<Rightarrow> string list \<Rightarrow> jsFunction \<Rightarrow> jsFunction \<Rightarrow> string \<Rightarrow> string option \<Rightarrow> world
     \<Rightarrow> assertionError option \<times> world" where
  "createCheckV9Deprecation createMessage moduleNames modularFunction nonModularFunction
       methodNameKey uniqueMessage w0 =
     (case createCheck_modular modularFunction w0 of
        (consoleWarnSpy, Some e, w4) \<Rightarrow> (Some e, w4)
      | (consoleWarnSpy, None, w4) \<Rightarrow>
          createCheck_legacy createMessage moduleNames consoleWarnSpy nonModularFunction
            methodNameKey uniqueMessage w4)"

text \<open>The state of a fresh test process: \<open>console.warn\<close> is the original, no mock exists.\<close>

definition freshWorld :: world where
  "freshWorld = \<lparr>consoleWarn = None, mocks = [], printed = []\<rparr>"

text \<open>
  The state of a test process whose test file has bound \<open>console.warn\<close> to a \<open>jest.fn()\<close>
  that has already recorded one call.
\<close>

definition jestFnWorld :: world where
  "jestFnWorld =
     \<lparr>consoleWarn = Some 0,
      mocks = [\<lparr>impl = ReturnUndefined, calls = [''earlier warning''], spied = False\<rparr>],
      printed = []\<rparr>"

section \<open>Properties of the primitives\<close>

lemma startsWith_prefix: "startsWith s pat = prefix pat s"
  by (induction s pat rule: startsWith.induct) auto

lemma stringIncludes_sublist: "stringIncludes s pat = sublist pat s"
  by (induction s pat rule: stringIncludes.induct) (auto simp: startsWith_prefix sublist_Cons_right)

lemma find_Some_holds: "find P xs = Some x \<Longrightarrow> P x"
  by (induction xs) (auto split: if_splits)

lemma find_first_failure:
  "\<forall>q \<in> set pre. \<not> P q \<Longrightarrow> P p \<Longrightarrow> find P (pre @ p # post) = Some p"
  by (induction pre) auto

lemma warnMatcher_sublist:
  "warnMatcher cm ms k u p =
     (if sublist (cm (arrayGet ms 0) k (instanceNameOf ms) u) p then None
      else Some (ToMatch p (cm (arrayGet ms 0) k (instanceNameOf ms) u)))"
  by (simp add: warnMatcher_def expect_toMatch_def stringIncludes_sublist)

lemmas jest_defs = spyOn_def mockImplementation_def mockClear_def mockReset_def mockRestore_def
  updMock_def expect_not_toHaveBeenCalled_def expect_toHaveBeenCalledTimes_def

lemma callFn_original:
  "consoleWarn w = None \<Longrightarrow> callFn fn w = (None, w\<lparr>printed := printed w @ fn\<rparr>)"
  by (induction fn arbitrary: w) (auto simp: console_warn_def)

lemma callFn_undefined:
  "consoleWarn w = Some i \<Longrightarrow> i < length (mocks w) \<Longrightarrow> impl (mocks w ! i) = ReturnUndefined \<Longrightarrow>
   callFn fn w = (None, updMock i (\<lambda>m. m\<lparr>calls := calls m @ fn\<rparr>) w)"
  by (induction fn arbitrary: w) (auto simp: console_warn_def updMock_def Let_def)

lemma callFn_Fn:
  "consoleWarn w = Some i \<Longrightarrow> i < length (mocks w) \<Longrightarrow> impl (mocks w ! i) = Fn f \<Longrightarrow>
   callFn fn w =
     (case find (\<lambda>p. f p \<noteq> None) fn of
        None \<Rightarrow> (None, updMock i (\<lambda>m. m\<lparr>calls := calls m @ fn\<rparr>) w)
      | Some p \<Rightarrow>
          (f p, updMock i (\<lambda>m. m\<lparr>calls := calls m @ takeWhile (\<lambda>q. f q = None) fn @ [p]\<rparr>) w))"
proof (induction fn arbitrary: w)
  case Nil
  then show ?case by (simp add: updMock_def)
next
  case (Cons a fn)
  let ?w1 = "updMock i (\<lambda>m. m\<lparr>calls := calls m @ [a]\<rparr>) w"
  have st: "consoleWarn ?w1 = Some i" "i < length (mocks ?w1)" "impl (mocks ?w1 ! i) = Fn f"
    using Cons.prems by (simp_all add: updMock_def)
  show ?case
  proof (cases "f a")
    case None
    have "callFn (a # fn) w = callFn fn ?w1"
      using Cons.prems None by (simp add: console_warn_def Let_def updMock_def)
    also note Cons.IH[OF st]
    finally show ?thesis
      using None Cons.prems by (simp add: updMock_def split: option.splits)
  next
    case (Some e)
    then show ?thesis
      using Cons.prems by (simp add: console_warn_def Let_def updMock_def)
  qed
qed

section \<open>The lines between the two calls\<close>

lemma checkV9_reset_props:
  assumes "spy < length (mocks w4)" and "consoleWarn w4 = None \<or> consoleWarn w4 = Some spy"
  shows "fst (checkV9_reset spy w4) = (if consoleWarn w4 = None then length (mocks w4) else spy)"
    and "consoleWarn (snd (checkV9_reset spy w4)) = Some (fst (checkV9_reset spy w4))"
    and "fst (checkV9_reset spy w4) < length (mocks (snd (checkV9_reset spy w4)))"
    and "calls (mocks (snd (checkV9_reset spy w4)) ! fst (checkV9_reset spy w4)) = []"
    and "calls (mocks (snd (checkV9_reset spy w4)) ! spy) = []"
    and "impl (mocks (snd (checkV9_reset spy w4)) ! fst (checkV9_reset spy w4)) = Fn (\<lambda>_. None)"
    and "printed (snd (checkV9_reset spy w4)) = printed w4"
    and "spied (mocks (snd (checkV9_reset spy w4)) ! fst (checkV9_reset spy w4)) =
           (consoleWarn w4 = None \<or> spied (mocks w4 ! spy))"
  using assms
  by (auto simp: checkV9_reset_def jest_defs Let_def nth_append)

lemma createCheck_reset_props:
  assumes "spy < length (mocks w4)" and "consoleWarn w4 = Some spy"
  shows "fst (createCheck_reset cm ms spy k u w4) =
           (if spied (mocks w4 ! spy) then length (mocks w4) else spy)"
    and "consoleWarn (snd (createCheck_reset cm ms spy k u w4)) =
           Some (fst (createCheck_reset cm ms spy k u w4))"
    and "fst (createCheck_reset cm ms spy k u w4) <
           length (mocks (snd (createCheck_reset cm ms spy k u w4)))"
    and "calls (mocks (snd (createCheck_reset cm ms spy k u w4)) !
           fst (createCheck_reset cm ms spy k u w4)) = []"
    and "calls (mocks (snd (createCheck_reset cm ms spy k u w4)) ! spy) = []"
    and "impl (mocks (snd (createCheck_reset cm ms spy k u w4)) !
           fst (createCheck_reset cm ms spy k u w4)) = Fn (warnMatcher cm ms k u)"
    and "printed (snd (createCheck_reset cm ms spy k u w4)) = printed w4"
  using assms
  by (auto simp: createCheck_reset_def jest_defs Let_def nth_append)

section \<open>The legacy call and its assertion\<close>

text \<open>
  The end of both harnesses has one shape: the legacy call, the count assertion on the mock
  \<open>j\<close> bound to \<open>console.warn\<close>, and a last operation \<open>fin\<close> on that mock
  (\<open>mockClear\<close> or \<open>mockReset\<close>).
\<close>

lemma legacy_tail:
  assumes W: "consoleWarn W = Some j" "j < length (mocks W)" "impl (mocks W ! j) = Fn f"
      "calls (mocks W ! j) = []"
    and fin: "\<And>w. consoleWarn (fin w) = consoleWarn w"
      "\<And>w. length (mocks (fin w)) = length (mocks w)"
      "\<And>w. j < length (mocks w) \<Longrightarrow> calls (mocks (fin w) ! j) = []"
      "\<And>w. j < length (mocks w) \<Longrightarrow> spied (mocks (fin w) ! j) = spied (mocks w ! j)"
    and R: "R = (case callFn l W of
                   (Some e, w9) \<Rightarrow> (Some e, w9)
                 | (None, w9) \<Rightarrow>
                     (case expect_toHaveBeenCalledTimes j 1 w9 of
                        Some e \<Rightarrow> (Some e, w9)
                      | None \<Rightarrow> (None, fin w9)))"
  shows "fst R =
           (case find (\<lambda>p. f p \<noteq> None) l of
              Some p \<Rightarrow> f p
            | None \<Rightarrow> if length l = 1 then None else Some (ToHaveBeenCalledTimes 1 (length l)))"
    and "consoleWarn (snd R) = Some j"
    and "length (mocks (snd R)) = length (mocks W)"
    and "calls (mocks (snd R) ! j) =
           (case find (\<lambda>p. f p \<noteq> None) l of
              Some p \<Rightarrow> takeWhile (\<lambda>q. f q = None) l @ [p]
            | None \<Rightarrow> if length l = 1 then [] else l)"
    and "spied (mocks (snd R) ! j) = spied (mocks W ! j)"
  unfolding R callFn_Fn[OF W(1,2,3), of l] using W fin
  by (auto simp: updMock_def expect_toHaveBeenCalledTimes_def
      split: option.splits dest: find_Some_holds)

lemma checkV9_legacy_eq:
  "checkV9_legacy spy l w4 =
     (case callFn l (snd (checkV9_reset spy w4)) of
        (Some e, w8) \<Rightarrow> (Some e, w8)
      | (None, w8) \<Rightarrow>
          (case expect_toHaveBeenCalledTimes (fst (checkV9_reset spy w4)) 1 w8 of
             Some e \<Rightarrow> (Some e, w8)
           | None \<Rightarrow> (None, mockClear (fst (checkV9_reset spy w4)) w8)))"
  unfolding checkV9_legacy_def checkV9_reset_def Let_def split_def fst_conv snd_conv
  by (rule refl)

lemma createCheck_legacy_eq:
  "createCheck_legacy cm ms spy l k u w4 =
     (case callFn l (snd (createCheck_reset cm ms spy k u w4)) of
        (Some e, w9) \<Rightarrow> (Some e, w9)
      | (None, w9) \<Rightarrow>
          (case expect_toHaveBeenCalledTimes (fst (createCheck_reset cm ms spy k u w4)) 1 w9 of
             Some e \<Rightarrow> (Some e, w9)
           | None \<Rightarrow> (None, mockReset (fst (createCheck_reset cm ms spy k u w4)) w9)))"
  unfolding createCheck_legacy_def createCheck_reset_def Let_def split_def fst_conv snd_conv
  by (rule refl)

lemma checkV9_legacy_props:
  assumes "spy < length (mocks w4)" and "consoleWarn w4 = None \<or> consoleWarn w4 = Some spy"
  shows "fst (checkV9_legacy spy l w4) =
           (if length l = 1 then None else Some (ToHaveBeenCalledTimes 1 (length l)))"
    and "consoleWarn (snd (checkV9_legacy spy l w4)) = Some (fst (checkV9_reset spy w4))"
    and "fst (checkV9_reset spy w4) < length (mocks (snd (checkV9_legacy spy l w4)))"
    and "calls (mocks (snd (checkV9_legacy spy l w4)) ! fst (checkV9_reset spy w4)) =
           (if length l = 1 then [] else l)"
    and "spied (mocks (snd (checkV9_legacy spy l w4)) ! fst (checkV9_reset spy w4)) =
           (consoleWarn w4 = None \<or> spied (mocks w4 ! spy))"
proof -
  note r = checkV9_reset_props[OF assms]
  have f: "find (\<lambda>p. (\<lambda>_. None :: assertionError option) p \<noteq> None) l = None"
    by (simp add: find_None_iff)
  note t = legacy_tail[where fin = "mockClear (fst (checkV9_reset spy w4))" and l = l,
      OF r(2,3,6,4) _ _ _ _ checkV9_legacy_eq, unfolded f option.case]
  have fin: "\<And>w. consoleWarn (mockClear (fst (checkV9_reset spy w4)) w) = consoleWarn w"
      "\<And>w. length (mocks (mockClear (fst (checkV9_reset spy w4)) w)) = length (mocks w)"
      "\<And>w. fst (checkV9_reset spy w4) < length (mocks w) \<Longrightarrow>
            calls (mocks (mockClear (fst (checkV9_reset spy w4)) w) ! fst (checkV9_reset spy w4)) = []"
      "\<And>w. fst (checkV9_reset spy w4) < length (mocks w) \<Longrightarrow>
            spied (mocks (mockClear (fst (checkV9_reset spy w4)) w) ! fst (checkV9_reset spy w4)) =
            spied (mocks w ! fst (checkV9_reset spy w4))"
    by (simp_all add: mockClear_def updMock_def)
  show "fst (checkV9_legacy spy l w4) =
           (if length l = 1 then None else Some (ToHaveBeenCalledTimes 1 (length l)))"
    by (rule t(1)[OF fin])
  show "consoleWarn (snd (checkV9_legacy spy l w4)) = Some (fst (checkV9_reset spy w4))"
    by (rule t(2)[OF fin])
  show "fst (checkV9_reset spy w4) < length (mocks (snd (checkV9_legacy spy l w4)))"
    using t(3)[OF fin] r(3) by simp
  show "calls (mocks (snd (checkV9_legacy spy l w4)) ! fst (checkV9_reset spy w4)) =
           (if length l = 1 then [] else l)"
    by (rule t(4)[OF fin])
  show "spied (mocks (snd (checkV9_legacy spy l w4)) ! fst (checkV9_reset spy w4)) =
           (consoleWarn w4 = None \<or> spied (mocks w4 ! spy))"
    using t(5)[OF fin] r(8) by simp
qed

lemma createCheck_legacy_props:
  assumes "spy < length (mocks w4)" and "consoleWarn w4 = Some spy"
  shows "fst (createCheck_legacy cm ms spy l k u w4) =
           (case find (\<lambda>p. warnMatcher cm ms k u p \<noteq> None) l of
              Some p \<Rightarrow> warnMatcher cm ms k u p
            | None \<Rightarrow> if length l = 1 then None else Some (ToHaveBeenCalledTimes 1 (length l)))"
    and "consoleWarn (snd (createCheck_legacy cm ms spy l k u w4)) =
           Some (fst (createCheck_reset cm ms spy k u w4))"
    and "fst (createCheck_reset cm ms spy k u w4) <
           length (mocks (snd (createCheck_legacy cm ms spy l k u w4)))"
    and "calls (mocks (snd (createCheck_legacy cm ms spy l k u w4)) !
           fst (createCheck_reset cm ms spy k u w4)) =
           (case find (\<lambda>p. warnMatcher cm ms k u p \<noteq> None) l of
              Some p \<Rightarrow> takeWhile (\<lambda>q. warnMatcher cm ms k u q = None) l @ [p]
            | None \<Rightarrow> if length l = 1 then [] else l)"
proof -
  note r = createCheck_reset_props[OF assms, where cm = cm and ms = ms and k = k and u = u]
  let ?j = "fst (createCheck_reset cm ms spy k u w4)"
  note t = legacy_tail[where fin = "mockReset ?j" and l = l,
      OF r(2,3,6,4) _ _ _ _ createCheck_legacy_eq]
  have fin: "\<And>w. consoleWarn (mockReset ?j w) = consoleWarn w"
      "\<And>w. length (mocks (mockReset ?j w)) = length (mocks w)"
      "\<And>w. ?j < length (mocks w) \<Longrightarrow> calls (mocks (mockReset ?j w) ! ?j) = []"
      "\<And>w. ?j < length (mocks w) \<Longrightarrow>
            spied (mocks (mockReset ?j w) ! ?j) = spied (mocks w ! ?j)"
    by (simp_all add: mockReset_def mockClear_def updMock_def)
  show "fst (createCheck_legacy cm ms spy l k u w4) =
           (case find (\<lambda>p. warnMatcher cm ms k u p \<noteq> None) l of
              Some p \<Rightarrow> warnMatcher cm ms k u p
            | None \<Rightarrow> if length l = 1 then None else Some (ToHaveBeenCalledTimes 1 (length l)))"
    by (rule t(1)[OF fin])
  show "consoleWarn (snd (createCheck_legacy cm ms spy l k u w4)) = Some ?j"
    by (rule t(2)[OF fin])
  show "?j < length (mocks (snd (createCheck_legacy cm ms spy l k u w4)))"
    using t(3)[OF fin] r(3) by simp
  show "calls (mocks (snd (createCheck_legacy cm ms spy l k u w4)) ! ?j) =
           (case find (\<lambda>p. warnMatcher cm ms k u p \<noteq> None) l of
              Some p \<Rightarrow> takeWhile (\<lambda>q. warnMatcher cm ms k u q = None) l @ [p]
            | None \<Rightarrow> if length l = 1 then [] else l)"
    by (rule t(4)[OF fin])
qed

section \<open>The modular call and its assertion\<close>

lemma spyOn_bound:
  assumes "wellFormed w"
  shows "consoleWarn (snd (spyOn w)) = Some (fst (spyOn w))"
    and "fst (spyOn w) < length (mocks (snd (spyOn w)))"
    and "spied (mocks (snd (spyOn w)) ! fst (spyOn w)) = (\<not> jestFnBound w)"
    and "jestFnBound w \<Longrightarrow> consoleWarn w = Some (fst (spyOn w))"
  using assms
  by (auto simp: spyOn_def wellFormed_def jestFnBound_def nth_append split: option.splits)

lemma checkV9_modular_props:
  assumes "wellFormed w"
  shows "fst (checkV9_modular m w) = fst (spyOn w)"
    and "fst (snd (checkV9_modular m w)) =
           (if jestFnBound w \<and> m \<noteq> [] then Some (NotToHaveBeenCalled (length m)) else None)"
    and "consoleWarn (snd (snd (checkV9_modular m w))) =
           (if jestFnBound w then Some (fst (spyOn w)) else None)"
    and "fst (spyOn w) < length (mocks (snd (snd (checkV9_modular m w))))"
    and "calls (mocks (snd (snd (checkV9_modular m w))) ! fst (spyOn w)) =
           (if jestFnBound w then m else [])"
    and "printed (snd (snd (checkV9_modular m w))) =
           (if jestFnBound w then printed w else printed w @ m)"
    and "spied (mocks (snd (snd (checkV9_modular m w))) ! fst (spyOn w)) = (\<not> jestFnBound w)"
proof -
  let ?s = "fst (spyOn w)"
  define w3 where "w3 = mockRestore ?s (mockImplementation ?s (\<lambda>_. None) (snd (spyOn w)))"
  note s = spyOn_bound[OF assms]
  have c: "?s < length (mocks w3)" "calls (mocks w3 ! ?s) = []" "printed w3 = printed w"
      "spied (mocks w3 ! ?s) = (\<not> jestFnBound w)"
      "consoleWarn w3 = (if jestFnBound w then Some ?s else None)"
      "impl (mocks w3 ! ?s) = ReturnUndefined"
    using s(1,2,3) by (auto simp: w3_def jest_defs spyOn_def split: option.splits)
  have eq: "checkV9_modular m w =
      (case callFn m w3 of
           (Some e, w4) \<Rightarrow> (?s, Some e, w4)
         | (None, w4) \<Rightarrow> (?s, expect_not_toHaveBeenCalled ?s w4, w4))"
    unfolding checkV9_modular_def Let_def split_def w3_def by (rule refl)
  have b: "callFn m w3 =
      (if jestFnBound w then (None, updMock ?s (\<lambda>x. x\<lparr>calls := calls x @ m\<rparr>) w3)
       else (None, w3\<lparr>printed := printed w3 @ m\<rparr>))"
    using c callFn_original[of w3 m] callFn_undefined[of w3 ?s m] by simp
  show "fst (checkV9_modular m w) = fst (spyOn w)"
    and "fst (snd (checkV9_modular m w)) =
           (if jestFnBound w \<and> m \<noteq> [] then Some (NotToHaveBeenCalled (length m)) else None)"
    and "consoleWarn (snd (snd (checkV9_modular m w))) =
           (if jestFnBound w then Some (fst (spyOn w)) else None)"
    and "fst (spyOn w) < length (mocks (snd (snd (checkV9_modular m w))))"
    and "calls (mocks (snd (snd (checkV9_modular m w))) ! fst (spyOn w)) =
           (if jestFnBound w then m else [])"
    and "printed (snd (snd (checkV9_modular m w))) =
           (if jestFnBound w then printed w else printed w @ m)"
    and "spied (mocks (snd (snd (checkV9_modular m w))) ! fst (spyOn w)) = (\<not> jestFnBound w)"
    unfolding eq b using c
    by (simp_all add: expect_not_toHaveBeenCalled_def updMock_def)
qed

lemma createCheck_modular_props:
  assumes "wellFormed w"
  shows "fst (createCheck_modular m w) = fst (spyOn w)"
    and "fst (snd (createCheck_modular m w)) =
           (if m = [] then None else Some (NotToHaveBeenCalled (length m)))"
    and "consoleWarn (snd (snd (createCheck_modular m w))) = Some (fst (spyOn w))"
    and "fst (spyOn w) < length (mocks (snd (snd (createCheck_modular m w))))"
    and "calls (mocks (snd (snd (createCheck_modular m w))) ! fst (spyOn w)) = m"
    and "printed (snd (snd (createCheck_modular m w))) = printed w"
    and "spied (mocks (snd (snd (createCheck_modular m w))) ! fst (spyOn w)) = (\<not> jestFnBound w)"
proof -
  let ?s = "fst (spyOn w)"
  define w3 where "w3 = mockReset ?s (mockImplementation ?s (\<lambda>_. None) (snd (spyOn w)))"
  note s = spyOn_bound[OF assms]
  have c: "?s < length (mocks w3)" "calls (mocks w3 ! ?s) = []" "printed w3 = printed w"
      "spied (mocks w3 ! ?s) = (\<not> jestFnBound w)"
      "consoleWarn w3 = Some ?s"
      "impl (mocks w3 ! ?s) = ReturnUndefined"
    using s(1,2,3) by (auto simp: w3_def jest_defs spyOn_def split: option.splits)
  have eq: "createCheck_modular m w =
      (case callFn m w3 of
           (Some e, w4) \<Rightarrow> (?s, Some e, w4)
         | (None, w4) \<Rightarrow> (?s, expect_not_toHaveBeenCalled ?s w4, w4))"
    unfolding createCheck_modular_def Let_def split_def w3_def by (rule refl)
  note b = callFn_undefined[OF c(5,1,6), of m]
  show "fst (createCheck_modular m w) = fst (spyOn w)"
    and "fst (snd (createCheck_modular m w)) =
           (if m = [] then None else Some (NotToHaveBeenCalled (length m)))"
    and "consoleWarn (snd (snd (createCheck_modular m w))) = Some (fst (spyOn w))"
    and "fst (spyOn w) < length (mocks (snd (snd (createCheck_modular m w))))"
    and "calls (mocks (snd (snd (createCheck_modular m w))) ! fst (spyOn w)) = m"
    and "printed (snd (snd (createCheck_modular m w))) = printed w"
    and "spied (mocks (snd (snd (createCheck_modular m w))) ! fst (spyOn w)) = (\<not> jestFnBound w)"
    unfolding eq b using c
    by (simp_all add: expect_not_toHaveBeenCalled_def updMock_def)
qed

section \<open>The two harnesses in closed form\<close>

lemma checkV9Deprecation_eq:
  assumes "wellFormed w"
  shows "checkV9Deprecation m l w =
           (if jestFnBound w \<and> m \<noteq> []
            then (Some (NotToHaveBeenCalled (length m)), snd (snd (checkV9_modular m w)))
            else checkV9_legacy (fst (spyOn w)) l (snd (snd (checkV9_modular m w))))"
proof -
  obtain s out w4 where r: "checkV9_modular m w = (s, out, w4)"
    by (rule prod_cases3)
  with checkV9_modular_props(1,2)[OF assms, of m]
  have "s = fst (spyOn w)"
    "out = (if jestFnBound w \<and> m \<noteq> [] then Some (NotToHaveBeenCalled (length m)) else None)"
    by simp_all
  moreover have "w4 = snd (snd (checkV9_modular m w))"
    by (simp add: r)
  ultimately show ?thesis
    unfolding checkV9Deprecation_def r by simp
qed

lemma checkV9_handover:
  assumes "wellFormed w"
  shows "fst (spyOn w) < length (mocks (snd (snd (checkV9_modular m w))))"
    and "consoleWarn (snd (snd (checkV9_modular m w))) = None
         \<or> consoleWarn (snd (snd (checkV9_modular m w))) = Some (fst (spyOn w))"
  using checkV9_modular_props(3,4)[OF assms, of m] by simp_all

lemma checkV9Deprecation_outcome:
  assumes "wellFormed w"
  shows "fst (checkV9Deprecation m l w) =
           (if jestFnBound w \<and> m \<noteq> [] then Some (NotToHaveBeenCalled (length m))
            else if length l = 1 then None else Some (ToHaveBeenCalledTimes 1 (length l)))"
  unfolding checkV9Deprecation_eq[OF assms]
  by (simp add: checkV9_legacy_props(1)[OF checkV9_handover[OF assms]])

lemma checkV9Deprecation_exit:
  assumes "wellFormed w"
  shows "wellFormed (snd (checkV9Deprecation m l w))"
    and "consoleWarn (snd (checkV9Deprecation m l w)) \<noteq> None"
    and "jestFnBound (snd (checkV9Deprecation m l w)) = jestFnBound w"
    and "fst (checkV9Deprecation m l w) = None \<Longrightarrow>
           calls (mocks (snd (checkV9Deprecation m l w)) !
             the (consoleWarn (snd (checkV9Deprecation m l w)))) = []"
proof -
  note h = checkV9_handover[OF assms, of m]
  note p = checkV9_modular_props[OF assms, of m]
  note q = checkV9_legacy_props[OF h, of l]
  show "wellFormed (snd (checkV9Deprecation m l w))"
    unfolding checkV9Deprecation_eq[OF assms] using p(3,4) q(2,3)
    by (simp add: wellFormed_def)
  show "consoleWarn (snd (checkV9Deprecation m l w)) \<noteq> None"
    unfolding checkV9Deprecation_eq[OF assms] using p(3) q(2)
    by simp
  show "jestFnBound (snd (checkV9Deprecation m l w)) = jestFnBound w"
    unfolding checkV9Deprecation_eq[OF assms] using p(3,7) q(2,5)
    by (auto simp: jestFnBound_def)
  show "calls (mocks (snd (checkV9Deprecation m l w)) !
             the (consoleWarn (snd (checkV9Deprecation m l w)))) = []"
    if ok: "fst (checkV9Deprecation m l w) = None"
  proof -
    from ok have n: "\<not> (jestFnBound w \<and> m \<noteq> [])" and len: "length l = 1"
      by (simp_all add: checkV9Deprecation_outcome[OF assms] split: if_splits)
    have e: "checkV9Deprecation m l w =
        checkV9_legacy (fst (spyOn w)) l (snd (snd (checkV9_modular m w)))"
      by (simp only: checkV9Deprecation_eq[OF assms] if_not_P[OF n])
    show ?thesis
      unfolding e using q(2,4) len by simp
  qed
qed

lemma createCheckV9Deprecation_eq:
  assumes "wellFormed w"
  shows "createCheckV9Deprecation cm ms m l k u w =
           (if m = [] then
              createCheck_legacy cm ms (fst (spyOn w)) l k u (snd (snd (createCheck_modular m w)))
            else (Some (NotToHaveBeenCalled (length m)), snd (snd (createCheck_modular m w))))"
proof -
  obtain s out w4 where r: "createCheck_modular m w = (s, out, w4)"
    by (rule prod_cases3)
  with createCheck_modular_props(1,2)[OF assms, of m]
  have "s = fst (spyOn w)" "out = (if m = [] then None else Some (NotToHaveBeenCalled (length m)))"
    by simp_all
  moreover have "w4 = snd (snd (createCheck_modular m w))"
    by (simp add: r)
  ultimately show ?thesis
    unfolding createCheckV9Deprecation_def r by simp
qed

lemma createCheck_handover:
  assumes "wellFormed w"
  shows "fst (spyOn w) < length (mocks (snd (snd (createCheck_modular m w))))"
    and "consoleWarn (snd (snd (createCheck_modular m w))) = Some (fst (spyOn w))"
  using createCheck_modular_props(3,4)[OF assms, of m] by simp_all

lemma createCheckV9Deprecation_outcome:
  assumes "wellFormed w"
  shows "fst (createCheckV9Deprecation cm ms m l k u w) =
           (if m \<noteq> [] then Some (NotToHaveBeenCalled (length m))
            else case find (\<lambda>p. warnMatcher cm ms k u p \<noteq> None) l of
                   Some p \<Rightarrow> warnMatcher cm ms k u p
                 | None \<Rightarrow> if length l = 1 then None
                           else Some (ToHaveBeenCalledTimes 1 (length l)))"
  unfolding createCheckV9Deprecation_eq[OF assms]
  by (simp add: createCheck_legacy_props(1)[OF createCheck_handover[OF assms]])

lemma createCheckV9Deprecation_pass:
  assumes "wellFormed w" and "fst (createCheckV9Deprecation cm ms m l k u w) = None"
  shows "m = []"
    and "find (\<lambda>p. warnMatcher cm ms k u p \<noteq> None) l = None"
    and "length l = 1"
proof -
  show m: "m = []"
    using assms(2) createCheckV9Deprecation_outcome[OF assms(1), of cm ms m l k u]
    by (simp split: if_splits)
  show f: "find (\<lambda>p. warnMatcher cm ms k u p \<noteq> None) l = None"
    using assms(2) createCheckV9Deprecation_outcome[OF assms(1), of cm ms m l k u] m
    by (auto split: option.splits dest: find_Some_holds)
  show "length l = 1"
    using assms(2) createCheckV9Deprecation_outcome[OF assms(1), of cm ms m l k u] m f
    by (simp split: if_splits)
qed

lemma createCheckV9Deprecation_exit:
  assumes "wellFormed w"
  shows "wellFormed (snd (createCheckV9Deprecation cm ms m l k u w))"
    and "consoleWarn (snd (createCheckV9Deprecation cm ms m l k u w)) \<noteq> None"
    and "fst (createCheckV9Deprecation cm ms m l k u w) = None \<Longrightarrow>
           calls (mocks (snd (createCheckV9Deprecation cm ms m l k u w)) !
             the (consoleWarn (snd (createCheckV9Deprecation cm ms m l k u w)))) = []"
    and "fst (createCheckV9Deprecation cm ms m l k u w) = None \<Longrightarrow> \<not> jestFnBound w \<Longrightarrow>
           consoleWarn (snd (createCheckV9Deprecation cm ms m l k u w)) \<noteq> Some (fst (spyOn w))"
proof -
  note h = createCheck_handover[OF assms, of m]
  note p = createCheck_modular_props[OF assms, of m]
  note q = createCheck_legacy_props[OF h, where cm = cm and ms = ms and l = l and k = k and u = u]
  note r = createCheck_reset_props[OF h, where cm = cm and ms = ms and k = k and u = u]
  let ?w4 = "snd (snd (createCheck_modular m w))"
  have e1: "createCheckV9Deprecation cm ms m l k u w =
      createCheck_legacy cm ms (fst (spyOn w)) l k u ?w4" if "m = []"
    using that by (simp add: createCheckV9Deprecation_eq[OF assms])
  have e2: "createCheckV9Deprecation cm ms m l k u w =
      (Some (NotToHaveBeenCalled (length m)), ?w4)" if "m \<noteq> []"
    using that by (simp add: createCheckV9Deprecation_eq[OF assms])
  show "wellFormed (snd (createCheckV9Deprecation cm ms m l k u w))"
  proof (cases "m = []")
    case True
    show ?thesis
      unfolding e1[OF True] using q(2,3) by (simp add: wellFormed_def)
  next
    case False
    show ?thesis
      unfolding e2[OF False] using p(3,4) by (simp add: wellFormed_def)
  qed
  show "consoleWarn (snd (createCheckV9Deprecation cm ms m l k u w)) \<noteq> None"
  proof (cases "m = []")
    case True
    show ?thesis
      unfolding e1[OF True] using q(2) by simp
  next
    case False
    show ?thesis
      unfolding e2[OF False] using p(3) by simp
  qed
  show "calls (mocks (snd (createCheckV9Deprecation cm ms m l k u w)) !
             the (consoleWarn (snd (createCheckV9Deprecation cm ms m l k u w)))) = []"
    if ok: "fst (createCheckV9Deprecation cm ms m l k u w) = None"
    unfolding e1[OF createCheckV9Deprecation_pass(1)[OF assms ok]]
    using createCheckV9Deprecation_pass(2,3)[OF assms ok] q(2,4)
    by simp
  show "consoleWarn (snd (createCheckV9Deprecation cm ms m l k u w)) \<noteq> Some (fst (spyOn w))"
    if ok: "fst (createCheckV9Deprecation cm ms m l k u w) = None" and nj: "\<not> jestFnBound w"
    unfolding e1[OF createCheckV9Deprecation_pass(1)[OF assms ok]]
    using q(2) r(1) p(4,7) nj
    by simp
qed

section \<open>The claims\<close>

text \<open>
  C1. When either harness invokes the legacy call, it asserts that the interceptor was
  invoked exactly once. \<open>checkV9Deprecation\<close>, once its modular assertion has passed, passes
  exactly when the legacy call warned once and fails with \<open>ToHaveBeenCalledTimes 1 n\<close> and
  the received count \<open>n\<close> otherwise; where \<open>console.warn\<close> is the original or a spy before
  the invocation this is the outcome for every modular call. For the checker made by
  \<open>createCheckV9Deprecation\<close> the same holds whenever the legacy call is reached with
  payloads that match (a silent modular call). In both harnesses a count other than one is
  a failure in every case.
\<close>

theorem legacy_call_asserted_exactly_once:
  assumes "wellFormed w"
  shows "(fst (snd (checkV9_modular m w)) = None \<longrightarrow>
            fst (checkV9Deprecation m l w) =
              (if length l = 1 then None else Some (ToHaveBeenCalledTimes 1 (length l))))
       \<and> (\<not> jestFnBound w \<longrightarrow>
            fst (checkV9Deprecation m l w) =
              (if length l = 1 then None else Some (ToHaveBeenCalledTimes 1 (length l))))
       \<and> (length l \<noteq> 1 \<longrightarrow> fst (checkV9Deprecation m l w) \<noteq> None)
       \<and> (m = [] \<and> (\<forall>p \<in> set l. sublist (cm (arrayGet ms 0) k (instanceNameOf ms) u) p) \<longrightarrow>
            fst (createCheckV9Deprecation cm ms m l k u w) =
              (if length l = 1 then None else Some (ToHaveBeenCalledTimes 1 (length l))))
       \<and> (length l \<noteq> 1 \<longrightarrow> fst (createCheckV9Deprecation cm ms m l k u w) \<noteq> None)"
proof (intro conjI impI)
  assume "fst (snd (checkV9_modular m w)) = None"
  then have "\<not> (jestFnBound w \<and> m \<noteq> [])"
    by (simp add: checkV9_modular_props(2)[OF assms] split: if_splits)
  then show "fst (checkV9Deprecation m l w) =
          (if length l = 1 then None else Some (ToHaveBeenCalledTimes 1 (length l)))"
    by (auto simp: checkV9Deprecation_outcome[OF assms])
next
  assume "\<not> jestFnBound w"
  then show "fst (checkV9Deprecation m l w) =
          (if length l = 1 then None else Some (ToHaveBeenCalledTimes 1 (length l)))"
    by (simp add: checkV9Deprecation_outcome[OF assms])
next
  assume "length l \<noteq> 1"
  then show "fst (checkV9Deprecation m l w) \<noteq> None"
    by (simp add: checkV9Deprecation_outcome[OF assms])
next
  assume h: "m = [] \<and> (\<forall>p \<in> set l. sublist (cm (arrayGet ms 0) k (instanceNameOf ms) u) p)"
  then have "find (\<lambda>p. warnMatcher cm ms k u p \<noteq> None) l = None"
    by (simp add: find_None_iff warnMatcher_sublist)
  with h show "fst (createCheckV9Deprecation cm ms m l k u w) =
          (if length l = 1 then None else Some (ToHaveBeenCalledTimes 1 (length l)))"
    by (simp add: createCheckV9Deprecation_outcome[OF assms])
next
  assume "length l \<noteq> 1"
  then show "fst (createCheckV9Deprecation cm ms m l k u w) \<noteq> None"
    by (auto simp: createCheckV9Deprecation_outcome[OF assms] split: option.splits
        dest: find_Some_holds)
qed

theorem legacy_call_asserted_exactly_once_witness:
  "wellFormed freshWorld \<and> wellFormed jestFnWorld
   \<and> \<not> jestFnBound freshWorld
   \<and> fst (snd (checkV9_modular [''m''] freshWorld)) = None
   \<and> fst (snd (checkV9_modular [] jestFnWorld)) = None
   \<and> fst (checkV9Deprecation [''m''] [''a'', ''b''] freshWorld) = Some (ToHaveBeenCalledTimes 1 2)
   \<and> fst (checkV9Deprecation [''m''] [''a''] freshWorld) = None
   \<and> fst (checkV9Deprecation [] [''a'', ''b''] jestFnWorld) = Some (ToHaveBeenCalledTimes 1 2)
   \<and> fst (checkV9Deprecation [] [''a''] jestFnWorld) = None
   \<and> fst (createCheckV9Deprecation (\<lambda>moduleName methodNameKey instanceName uniqueMessage.
            methodNameKey) [''database''] [] [] ''on'' None freshWorld)
       = Some (ToHaveBeenCalledTimes 1 0)
   \<and> fst (createCheckV9Deprecation (\<lambda>moduleName methodNameKey instanceName uniqueMessage.
            methodNameKey) [''database''] [] [''on'', ''on''] ''on'' None freshWorld) \<noteq> None"
proof -
  have h: "wellFormed freshWorld"
    by (simp add: wellFormed_def freshWorld_def)
  have j: "wellFormed jestFnWorld"
    by (simp add: wellFormed_def jestFnWorld_def)
  have n: "\<not> jestFnBound freshWorld"
    by (simp add: jestFnBound_def freshWorld_def)
  have a: "fst (snd (checkV9_modular [''m''] freshWorld)) = None"
    using n by (simp add: checkV9_modular_props(2)[OF h])
  have b: "fst (snd (checkV9_modular [] jestFnWorld)) = None"
    by (simp add: checkV9_modular_props(2)[OF j])
  have s: "sublist ''on'' ''on''"
    by simp
  show ?thesis
    using h j n a b s
      legacy_call_asserted_exactly_once[OF h, where m = "[''m'']" and l = "[''a'', ''b'']"]
      legacy_call_asserted_exactly_once[OF h, where m = "[''m'']" and l = "[''a'']"]
      legacy_call_asserted_exactly_once[OF j, where m = "[]" and l = "[''a'', ''b'']"]
      legacy_call_asserted_exactly_once[OF j, where m = "[]" and l = "[''a'']"]
      legacy_call_asserted_exactly_once[OF h, where m = "[]" and l = "[]"
        and cm = "\<lambda>moduleName methodNameKey instanceName uniqueMessage. methodNameKey"
        and ms = "[''database'']" and k = "''on''" and u = None]
      legacy_call_asserted_exactly_once[OF h, where m = "[]" and l = "[''on'', ''on'']"
        and cm = "\<lambda>moduleName methodNameKey instanceName uniqueMessage. methodNameKey"
        and ms = "[''database'']" and k = "''on''" and u = None]
    by simp
qed

text \<open>
  C2. A modular call that warns must make the harness fail. \<open>checkV9Deprecation\<close> does not:
  it restores its first spy before the modular call, so the warning reaches the original
  \<open>console.warn\<close> and the harness passes. Evaluated on a fresh process, with a modular
  call that warns once and a legacy call that warns once.
\<close>

theorem checkV9Deprecation_accepts_warning_modular_call:
  "fst (checkV9Deprecation [''modular warning''] [''deprecated''] freshWorld) = None
   \<and> printed (snd (checkV9Deprecation [''modular warning''] [''deprecated''] freshWorld)) =
       [''modular warning'']"
  by (simp add: checkV9Deprecation_def checkV9_modular_def checkV9_legacy_def freshWorld_def
      jest_defs console_warn_def Let_def)

text \<open>
  The checker made by \<open>createCheckV9Deprecation\<close> does fail on such a modular call, with
  the number of warnings its first spy recorded.
\<close>

lemma createCheckV9Deprecation_rejects_warning_modular_call:
  assumes "wellFormed w" and "m \<noteq> []"
  shows "fst (createCheckV9Deprecation cm ms m l k u w) = Some (NotToHaveBeenCalled (length m))"
  using assms by (simp add: createCheckV9Deprecation_outcome)

text \<open>
  C3. In the legacy phase of the checker made by \<open>createCheckV9Deprecation\<close>, every payload
  the second spy captures is matched against
  \<open>createMessage moduleNames[0] methodNameKey instanceName uniqueMessage\<close>: the first payload
  that does not contain that string ends the check with the failure \<open>ToMatch\<close> for that
  payload, and a check that passes has seen only payloads that contain it.
\<close>

theorem legacy_payload_matched_against_createMessage:
  assumes "wellFormed w"
  shows "(l = pre @ p # post
            \<and> (\<forall>q \<in> set pre. sublist (cm (arrayGet ms 0) k (instanceNameOf ms) u) q)
            \<and> \<not> sublist (cm (arrayGet ms 0) k (instanceNameOf ms) u) p \<longrightarrow>
          fst (createCheckV9Deprecation cm ms [] l k u w) =
            Some (ToMatch p (cm (arrayGet ms 0) k (instanceNameOf ms) u)))
       \<and> (fst (createCheckV9Deprecation cm ms m l k u w) = None \<longrightarrow>
            (\<forall>q \<in> set l. sublist (cm (arrayGet ms 0) k (instanceNameOf ms) u) q))"
proof (intro conjI impI)
  let ?M = "cm (arrayGet ms 0) k (instanceNameOf ms) u"
  assume h: "l = pre @ p # post \<and> (\<forall>q \<in> set pre. sublist ?M q) \<and> \<not> sublist ?M p"
  then have "find (\<lambda>p. warnMatcher cm ms k u p \<noteq> None) (pre @ p # post) = Some p"
    by (intro find_first_failure) (simp_all add: warnMatcher_sublist)
  with h show "fst (createCheckV9Deprecation cm ms [] l k u w) = Some (ToMatch p ?M)"
    by (simp add: createCheckV9Deprecation_outcome[OF assms] warnMatcher_sublist)
next
  let ?M = "cm (arrayGet ms 0) k (instanceNameOf ms) u"
  assume "fst (createCheckV9Deprecation cm ms m l k u w) = None"
  then have "find (\<lambda>p. warnMatcher cm ms k u p \<noteq> None) l = None"
    by (auto simp: createCheckV9Deprecation_outcome[OF assms] split: if_splits option.splits
        dest: find_Some_holds)
  then show "\<forall>q \<in> set l. sublist ?M q"
    by (auto simp: find_None_iff warnMatcher_sublist split: if_splits)
qed

theorem legacy_payload_matched_against_createMessage_witness:
  "wellFormed freshWorld
   \<and> fst (createCheckV9Deprecation
           (\<lambda>moduleName methodNameKey instanceName uniqueMessage. methodNameKey @ instanceName)
           [''database''] [] [''other''] ''on'' None freshWorld)
       = Some (ToMatch ''other'' ''ondefault'')
   \<and> fst (createCheckV9Deprecation
           (\<lambda>moduleName methodNameKey instanceName uniqueMessage. methodNameKey @ instanceName)
           [''database''] [] [''ondefault''] ''on'' None freshWorld) = None
   \<and> sublist ''ondefault'' ''ondefault''"
proof -
  have h: "wellFormed freshWorld"
    by (simp add: wellFormed_def freshWorld_def)
  have n: "\<not> sublist ''ondefault'' ''other''"
    by (simp add: stringIncludes_sublist[symmetric])
  have p: "fst (createCheckV9Deprecation
           (\<lambda>moduleName methodNameKey instanceName uniqueMessage. methodNameKey @ instanceName)
           [''database''] [] [''ondefault''] ''on'' None freshWorld) = None"
    by (simp add: createCheckV9Deprecation_outcome[OF h] warnMatcher_sublist
        instanceNameOf_def arrayGet_def)
  show ?thesis
    using h n p
      legacy_payload_matched_against_createMessage[OF h, where pre = "[]" and p = "''other''"
        and post = "[]" and l = "[''other'']" and ms = "[''database'']" and k = "''on''"
        and u = None
        and cm = "\<lambda>moduleName methodNameKey instanceName uniqueMessage.
                    methodNameKey @ instanceName"]
      legacy_payload_matched_against_createMessage[OF h, where m = "[]"
        and l = "[''ondefault'']" and ms = "[''database'']" and k = "''on''" and u = None
        and cm = "\<lambda>moduleName methodNameKey instanceName uniqueMessage.
                    methodNameKey @ instanceName"]
    by (simp add: instanceNameOf_def arrayGet_def)
qed

text \<open>
  C4, as stated: on every exit path \<open>console.warn\<close> is restored to its state before the
  invocation. It is not: on a fresh process, \<open>checkV9Deprecation\<close> with a silent modular
  call and a legacy call that warns once returns normally, and \<open>console.warn\<close>, the
  original before the call, is the second spy afterwards.
\<close>

theorem console_warn_not_restored_counterexample:
  "fst (checkV9Deprecation [] [''deprecated''] freshWorld) = None
   \<and> consoleWarn (snd (checkV9Deprecation [] [''deprecated''] freshWorld)) \<noteq>
       consoleWarn freshWorld
   \<and> consoleWarn freshWorld = None
   \<and> consoleWarn (snd (checkV9Deprecation [] [''deprecated''] freshWorld)) = Some 1"
  by (simp add: checkV9Deprecation_def checkV9_modular_def checkV9_legacy_def freshWorld_def
      jest_defs console_warn_def Let_def)

text \<open>
  C4, amended. On every exit path of either harness, normal return and assertion failure
  alike, a mock function is installed on \<open>console.warn\<close> when the harness is left; where
  \<open>console.warn\<close> was the original function before the invocation, it is therefore not
  restored to that state. On normal return the mock left installed has an empty record of
  invocations. In the checker made by \<open>createCheckV9Deprecation\<close>, where \<open>console.warn\<close> was
  not bound to a \<open>jest.fn()\<close> before the invocation, the mock left installed on normal
  return is not the first observation point: that one has been restored, and the second
  one stays.
\<close>

theorem second_spy_stays_installed:
  assumes "wellFormed w"
  shows "consoleWarn (snd (checkV9Deprecation m l w)) \<noteq> None
       \<and> consoleWarn (snd (createCheckV9Deprecation cm ms m l k u w)) \<noteq> None
       \<and> (consoleWarn w = None \<longrightarrow>
            consoleWarn (snd (checkV9Deprecation m l w)) \<noteq> consoleWarn w
            \<and> consoleWarn (snd (createCheckV9Deprecation cm ms m l k u w)) \<noteq> consoleWarn w)
       \<and> (fst (checkV9Deprecation m l w) = None \<longrightarrow>
            calls (mocks (snd (checkV9Deprecation m l w)) !
                 the (consoleWarn (snd (checkV9Deprecation m l w)))) = [])
       \<and> (fst (createCheckV9Deprecation cm ms m l k u w) = None \<longrightarrow>
            calls (mocks (snd (createCheckV9Deprecation cm ms m l k u w)) !
                 the (consoleWarn (snd (createCheckV9Deprecation cm ms m l k u w)))) = [])
       \<and> (fst (createCheckV9Deprecation cm ms m l k u w) = None \<and> \<not> jestFnBound w \<longrightarrow>
            consoleWarn (snd (createCheckV9Deprecation cm ms m l k u w)) \<noteq> Some (fst (spyOn w)))"
proof (intro conjI impI)
  show a: "consoleWarn (snd (checkV9Deprecation m l w)) \<noteq> None"
    by (rule checkV9Deprecation_exit(2)[OF assms])
  show b: "consoleWarn (snd (createCheckV9Deprecation cm ms m l k u w)) \<noteq> None"
    by (rule createCheckV9Deprecation_exit(2)[OF assms])
  assume "consoleWarn w = None"
  then show "consoleWarn (snd (checkV9Deprecation m l w)) \<noteq> consoleWarn w"
    and "consoleWarn (snd (createCheckV9Deprecation cm ms m l k u w)) \<noteq> consoleWarn w"
    using a b by simp_all
next
  assume "fst (checkV9Deprecation m l w) = None"
  then show "calls (mocks (snd (checkV9Deprecation m l w)) !
          the (consoleWarn (snd (checkV9Deprecation m l w)))) = []"
    by (rule checkV9Deprecation_exit(4)[OF assms])
next
  assume "fst (createCheckV9Deprecation cm ms m l k u w) = None"
  then show "calls (mocks (snd (createCheckV9Deprecation cm ms m l k u w)) !
          the (consoleWarn (snd (createCheckV9Deprecation cm ms m l k u w)))) = []"
    by (rule createCheckV9Deprecation_exit(3)[OF assms])
next
  assume "fst (createCheckV9Deprecation cm ms m l k u w) = None \<and> \<not> jestFnBound w"
  then show "consoleWarn (snd (createCheckV9Deprecation cm ms m l k u w)) \<noteq>
      Some (fst (spyOn w))"
    using createCheckV9Deprecation_exit(4)[OF assms] by blast
qed

theorem second_spy_stays_installed_witness:
  "wellFormed freshWorld
   \<and> consoleWarn freshWorld = None
   \<and> \<not> jestFnBound freshWorld
   \<and> fst (checkV9Deprecation [] [''deprecated''] freshWorld) = None
   \<and> fst (createCheckV9Deprecation
           (\<lambda>moduleName methodNameKey instanceName uniqueMessage. methodNameKey)
           [''database''] [] [''on is deprecated''] ''on'' None freshWorld) = None
   \<and> consoleWarn (snd (checkV9Deprecation [] [''deprecated''] freshWorld)) \<noteq> None
   \<and> consoleWarn (snd (createCheckV9Deprecation
           (\<lambda>moduleName methodNameKey instanceName uniqueMessage. methodNameKey)
           [''database''] [] [''on is deprecated''] ''on'' None freshWorld)) \<noteq> None
   \<and> consoleWarn (snd (createCheckV9Deprecation
           (\<lambda>moduleName methodNameKey instanceName uniqueMessage. methodNameKey)
           [''database''] [] [''on is deprecated''] ''on'' None freshWorld)) \<noteq>
       Some (fst (spyOn freshWorld))
   \<and> consoleWarn (snd (createCheckV9Deprecation
           (\<lambda>moduleName methodNameKey instanceName uniqueMessage. methodNameKey)
           [''database''] [''modular warning''] [''on is deprecated''] ''on'' None freshWorld)) \<noteq>
       None"
proof -
  have h: "wellFormed freshWorld"
    by (simp add: wellFormed_def freshWorld_def)
  have n: "consoleWarn freshWorld = None" "\<not> jestFnBound freshWorld"
    by (simp_all add: jestFnBound_def freshWorld_def)
  have a: "fst (checkV9Deprecation [] [''deprecated''] freshWorld) = None"
    by (simp add: checkV9Deprecation_outcome[OF h])
  have b: "fst (createCheckV9Deprecation
           (\<lambda>moduleName methodNameKey instanceName uniqueMessage. methodNameKey)
           [''database''] [] [''on is deprecated''] ''on'' None freshWorld) = None"
    by (simp add: createCheckV9Deprecation_outcome[OF h] warnMatcher_def expect_toMatch_def)
  show ?thesis
    using h n a b
      second_spy_stays_installed[OF h, where m = "[]" and l = "[''deprecated'']"
        and cm = "\<lambda>moduleName methodNameKey instanceName uniqueMessage. methodNameKey"
        and ms = "[''database'']" and k = "''on''" and u = None]
      second_spy_stays_installed[OF h, where m = "[]" and l = "[''on is deprecated'']"
        and cm = "\<lambda>moduleName methodNameKey instanceName uniqueMessage. methodNameKey"
        and ms = "[''database'']" and k = "''on''" and u = None]
      second_spy_stays_installed[OF h, where m = "[''modular warning'']"
        and l = "[''on is deprecated'']"
        and cm = "\<lambda>moduleName methodNameKey instanceName uniqueMessage. methodNameKey"
        and ms = "[''database'']" and k = "''on''" and u = None]
    by simp
qed


text \<open>
  On the states the modular phase hands over, the first observation point has recorded
  nothing when the reset is reached: the modular assertion has passed. The theorem above
  states the reset for any record.
\<close>

lemma checkV9_handover_record_empty:
  assumes "wellFormed w" and "fst (snd (checkV9_modular m w)) = None"
  shows "calls (mocks (snd (snd (checkV9_modular m w))) ! fst (checkV9_modular m w)) = []"
  using assms(2) checkV9_modular_props(1,2,5)[OF assms(1), of m]
  by (simp split: if_splits)

lemma createCheck_handover_record_empty:
  assumes "wellFormed w" and "fst (snd (createCheck_modular m w)) = None"
  shows "calls (mocks (snd (snd (createCheck_modular m w))) ! fst (createCheck_modular m w)) = []"
  using assms(2) createCheck_modular_props(1,2,5)[OF assms(1), of m]
  by (simp split: if_splits)


text \<open>
  C6. Running a harness twice in succession on the same functions (and, for the checker,
  the same identifying tuple) gives the same outcome both times: the second run, started
  in the state the first run left, passes or fails as the first did.
\<close>

theorem harness_idempotent:
  assumes "wellFormed w"
  shows "fst (checkV9Deprecation m l (snd (checkV9Deprecation m l w))) =
           fst (checkV9Deprecation m l w)
       \<and> fst (createCheckV9Deprecation cm ms m l k u
                (snd (createCheckV9Deprecation cm ms m l k u w))) =
           fst (createCheckV9Deprecation cm ms m l k u w)"
proof
  have "wellFormed (snd (checkV9Deprecation m l w))"
    by (rule checkV9Deprecation_exit(1)[OF assms])
  then show "fst (checkV9Deprecation m l (snd (checkV9Deprecation m l w))) =
           fst (checkV9Deprecation m l w)"
    by (simp add: checkV9Deprecation_outcome assms checkV9Deprecation_exit(3))
next
  have "wellFormed (snd (createCheckV9Deprecation cm ms m l k u w))"
    by (rule createCheckV9Deprecation_exit(1)[OF assms])
  then show "fst (createCheckV9Deprecation cm ms m l k u
                (snd (createCheckV9Deprecation cm ms m l k u w))) =
           fst (createCheckV9Deprecation cm ms m l k u w)"
    by (simp add: createCheckV9Deprecation_outcome assms)
qed

theorem harness_idempotent_witness:
  "wellFormed freshWorld
   \<and> fst (checkV9Deprecation [''x''] [] (snd (checkV9Deprecation [''x''] [] freshWorld))) =
       Some (ToHaveBeenCalledTimes 1 0)
   \<and> fst (createCheckV9Deprecation
           (\<lambda>moduleName methodNameKey instanceName uniqueMessage. methodNameKey)
           [''database''] [''x''] [''on''] ''on'' None
           (snd (createCheckV9Deprecation
              (\<lambda>moduleName methodNameKey instanceName uniqueMessage. methodNameKey)
              [''database''] [''x''] [''on''] ''on'' None freshWorld))) =
       Some (NotToHaveBeenCalled 1)"
proof -
  have h: "wellFormed freshWorld"
    by (simp add: wellFormed_def freshWorld_def)
  have n: "\<not> jestFnBound freshWorld"
    by (simp add: jestFnBound_def freshWorld_def)
  show ?thesis
    using h n
      harness_idempotent[OF h, where m = "[''x'']" and l = "[]"
        and cm = "\<lambda>moduleName methodNameKey instanceName uniqueMessage. methodNameKey"
        and ms = "[''database'']" and k = "''on''" and u = None]
      harness_idempotent[OF h, where m = "[''x'']" and l = "[''on'']"
        and cm = "\<lambda>moduleName methodNameKey instanceName uniqueMessage. methodNameKey"
        and ms = "[''database'']" and k = "''on''" and u = None]
    by (simp add: checkV9Deprecation_outcome[OF h] createCheckV9Deprecation_outcome[OF h])
qed

text \<open>
  C8. \<open>createCheckV9Deprecation createMessage moduleNames\<close> is a checker of
  \<open>(modularFunction, nonModularFunction, methodNameKey, uniqueMessage)\<close> bound to
  \<open>moduleNames\<close>: with a module name and a non-empty instance name in \<open>moduleNames\<close>, the
  message a legacy warning is matched against is \<open>createMessage\<close> of \<open>moduleNames[0]\<close>,
  the method key, \<open>moduleNames[1]\<close> and the unique message.
\<close>

theorem checker_bound_to_moduleNames:
  assumes "wellFormed w" and "moduleNames = moduleName # instanceName # rest" and "instanceName \<noteq> []"
  shows "fst (createCheckV9Deprecation createMessage moduleNames [] [warnMessage]
                methodNameKey uniqueMessage w) =
           (if sublist (createMessage (Some moduleName) methodNameKey instanceName uniqueMessage)
                 warnMessage
            then None
            else Some (ToMatch warnMessage
                   (createMessage (Some moduleName) methodNameKey instanceName uniqueMessage)))"
  using assms(2,3)
  by (simp add: createCheckV9Deprecation_outcome[OF assms(1)] warnMatcher_sublist
      instanceNameOf_def arrayGet_def)

theorem checker_bound_to_moduleNames_witness:
  "wellFormed freshWorld
   \<and> [''database'', ''DatabaseReference''] = ''database'' # ''DatabaseReference'' # []
   \<and> ''DatabaseReference'' \<noteq> []
   \<and> fst (createCheckV9Deprecation
           (\<lambda>moduleName methodNameKey instanceName uniqueMessage.
              methodNameKey @ '' of '' @ instanceName)
           [''database'', ''DatabaseReference''] [] [''on of DatabaseReference'']
           ''on'' None freshWorld) = None"
proof -
  have h: "wellFormed freshWorld"
    by (simp add: wellFormed_def freshWorld_def)
  have i: "''DatabaseReference'' \<noteq> []"
    by simp
  show ?thesis
    using h
      checker_bound_to_moduleNames[OF h refl i, where rest = "[]" and moduleName = "''database''"
        and createMessage = "\<lambda>moduleName methodNameKey instanceName uniqueMessage.
              methodNameKey @ '' of '' @ instanceName"
        and warnMessage = "''on of DatabaseReference''" and methodNameKey = "''on''"
        and uniqueMessage = None]
    by simp
qed

text \<open>
  C9. When \<open>moduleNames\<close> has no second element, or its second element is the empty string,
  the instance name in the expected message is \<open>default\<close>.
\<close>

theorem instance_name_defaults_to_default:
  assumes "wellFormed w" and "arrayGet moduleNames 1 = None \<or> arrayGet moduleNames 1 = Some []"
  shows "instanceNameOf moduleNames = ''default''
       \<and> fst (createCheckV9Deprecation createMessage moduleNames [] [warnMessage]
                methodNameKey uniqueMessage w) =
           (if sublist (createMessage (arrayGet moduleNames 0) methodNameKey ''default''
                   uniqueMessage) warnMessage
            then None
            else Some (ToMatch warnMessage
                   (createMessage (arrayGet moduleNames 0) methodNameKey ''default''
                      uniqueMessage)))"
proof -
  from assms(2) have d: "instanceNameOf moduleNames = ''default''"
    by (auto simp: instanceNameOf_def)
  then show ?thesis
    by (simp add: createCheckV9Deprecation_outcome[OF assms(1)] warnMatcher_sublist)
qed

theorem instance_name_defaults_to_default_witness:
  "wellFormed freshWorld
   \<and> arrayGet [''database''] 1 = None
   \<and> arrayGet [''database'', ''''] 1 = Some []
   \<and> instanceNameOf [''database''] = ''default''
   \<and> instanceNameOf [''database'', ''''] = ''default''
   \<and> fst (createCheckV9Deprecation
           (\<lambda>moduleName methodNameKey instanceName uniqueMessage.
              methodNameKey @ '' of '' @ instanceName)
           [''database''] [] [''on of default''] ''on'' None freshWorld) = None"
proof -
  have h: "wellFormed freshWorld"
    by (simp add: wellFormed_def freshWorld_def)
  have a: "arrayGet [''database''] 1 = None \<or> arrayGet [''database''] 1 = Some []"
    by (simp add: arrayGet_def)
  have b: "arrayGet [''database'', ''''] 1 = None \<or> arrayGet [''database'', ''''] 1 = Some []"
    by (simp add: arrayGet_def)
  show ?thesis
    using h
      instance_name_defaults_to_default[OF h a, where warnMessage = "''on of default''"
        and createMessage = "\<lambda>moduleName methodNameKey instanceName uniqueMessage.
              methodNameKey @ '' of '' @ instanceName"
        and methodNameKey = "''on''" and uniqueMessage = None]
      instance_name_defaults_to_default[OF h b, where warnMessage = "''on of default''"
        and createMessage = "\<lambda>moduleName methodNameKey instanceName uniqueMessage.
              methodNameKey @ '' of '' @ instanceName"
        and methodNameKey = "''on''" and uniqueMessage = None]
    by (simp add: arrayGet_def)
qed

text \<open>
  C10. In \<open>checkV9Deprecation\<close> the first spy is restored before \<open>modularFunction\<close> runs.
  Where \<open>console.warn\<close> is the original function or a spy made by \<open>jest.spyOn\<close> before the
  invocation, whatever the modular call warns goes to the original \<open>console.warn\<close>; at the
  assertion the first spy has recorded no invocation, and the assertion passes.
\<close>

theorem checkV9_modular_assertion_always_passes:
  assumes "wellFormed w" and "\<not> jestFnBound w"
  shows "case checkV9_modular m w of
           (consoleWarnSpy, outcome, w') \<Rightarrow>
             outcome = None
             \<and> calls (mocks w' ! consoleWarnSpy) = []
             \<and> consoleWarn w' = None
             \<and> printed w' = printed w @ m"
  using checkV9_modular_props(1,2,3,5,6)[OF assms(1), of m] assms(2)
  by (simp add: split_def)

theorem checkV9_modular_assertion_always_passes_witness:
  "wellFormed freshWorld
   \<and> \<not> jestFnBound freshWorld
   \<and> (case checkV9_modular [''modular warning''] freshWorld of
         (consoleWarnSpy, outcome, w') \<Rightarrow>
           outcome = None
           \<and> calls (mocks w' ! consoleWarnSpy) = []
           \<and> consoleWarn w' = None
           \<and> printed w' = [''modular warning''])"
proof -
  have h: "wellFormed freshWorld"
    by (simp add: wellFormed_def freshWorld_def)
  have n: "\<not> jestFnBound freshWorld"
    by (simp add: jestFnBound_def freshWorld_def)
  show ?thesis
    using h n checkV9_modular_assertion_always_passes[OF h n, of "[''modular warning'']"]
    by (simp add: freshWorld_def split_def)
qed

text \<open>
  Where a test file has bound \<open>console.warn\<close> to a \<open>jest.fn()\<close>, \<open>mockRestore\<close> leaves that
  mock in place, it records the modular warning, and the assertion fails.
\<close>

lemma checkV9_modular_assertion_on_jest_fn:
  assumes "wellFormed w" and "jestFnBound w" and "m \<noteq> []"
  shows "fst (snd (checkV9_modular m w)) = Some (NotToHaveBeenCalled (length m))"
  using assms(2,3) by (simp add: checkV9_modular_props(2)[OF assms(1)])

end
